theory Spec2Isabelle
  imports Complex_Main
begin

section \<open>Strings\<close>

text \<open>
  A Python \<open>str\<close> is modelled as a \<open>string\<close>: one \<open>char\<close> for each character,
  so that \<open>length\<close> is Python's \<open>len\<close>.

  \<open>str.upper()\<close> is Python's: its table of letter cases is not part of the
  repository. The validators and \<open>get_by_sku\<close> therefore take it as the parameter
  \<open>str_upper\<close>, and what is proved of them holds for every such function.
  \<open>upper\<close> and \<open>lower\<close> below fold the letters \<open>a..z\<close> and \<open>A..Z\<close> only and leave
  every other character alone: on a text of ASCII characters \<open>upper\<close> is
  \<open>str.upper()\<close>, and it stands for it at the ASCII inputs on which the validators
  are evaluated.
\<close>

definition upper_char :: "char \<Rightarrow> char" where
  "upper_char c =
     (let n = (of_char c :: nat) in if 97 \<le> n \<and> n \<le> 122 then char_of (n - 32) else c)"

definition lower_char :: "char \<Rightarrow> char" where
  "lower_char c =
     (let n = (of_char c :: nat) in if 65 \<le> n \<and> n \<le> 90 then char_of (n + 32) else c)"

definition upper :: "string \<Rightarrow> string" where
  "upper s = map upper_char s"

definition lower :: "string \<Rightarrow> string" where
  "lower s = map lower_char s"

text \<open>
  \<open>v.split(sep)\<close> with a one-character separator: the text is cut at every occurrence
  of the separator, empty pieces are kept, and the empty text gives one empty piece.
\<close>

fun split :: "string \<Rightarrow> char \<Rightarrow> string list" where
  "split [] sep = [[]]"
| "split (c # cs) sep =
     (if c = sep then [] # split cs sep
      else (case split cs sep of
              [] \<Rightarrow> [[c]]
            | w # ws \<Rightarrow> (c # w) # ws))"

section \<open>Decimals\<close>

text \<open>
  A finite \<open>Decimal\<close> as \<open>as_tuple()\<close> shows it: a sign, the coefficient (the digits
  read as a natural number) and the exponent. Its value is
  \<open>(-1)^sign * coefficient * 10^exponent\<close>, an exact rational number; comparisons of
  decimals with \<open>0\<close> compare that value.
\<close>

record decimal =
  dec_sign :: bool
  dec_coefficient :: nat
  dec_exponent :: int

definition pow10 :: "int \<Rightarrow> rat" where
  "pow10 e = (if 0 \<le> e then 10 ^ nat e else 1 / 10 ^ nat (- e))"

definition dec_value :: "decimal \<Rightarrow> rat" where
  "dec_value d =
     (if dec_sign d then - 1 else 1) * of_nat (dec_coefficient d) * pow10 (dec_exponent d)"

definition Decimal :: "bool \<Rightarrow> nat \<Rightarrow> int \<Rightarrow> decimal" where
  "Decimal s c e = \<lparr>dec_sign = s, dec_coefficient = c, dec_exponent = e\<rparr>"

section \<open>Validation layer (app/schemas/producto.py)\<close>

text \<open>
  A validator either returns the (possibly normalised) value or raises; the raise is
  the \<open>Inl\<close> branch. The constraints written in \<open>Field(...)\<close> are checked first, the
  \<open>field_validator\<close> of the field runs on a value that passed them.
\<close>

datatype validation_error =
    StringTooShort
  | StringTooLong
  | NotGreaterThan
  | NotGreaterEqual
  | SkuVacio
  | SkuFormato
  | PrecioNoPositivo
  | PrecioDecimales
  | StockNegativo

definition validate_sku :: "(string \<Rightarrow> string) \<Rightarrow> string \<Rightarrow> validation_error + string" where
  "validate_sku str_upper v =
     (if v = [] then Inl SkuVacio
      else if length (split v (CHR ''-'')) \<noteq> 2 then Inl SkuFormato
      else Inr (str_upper v))"

definition validate_precio :: "decimal \<Rightarrow> validation_error + decimal" where
  "validate_precio v =
     (if dec_value v \<le> 0 then Inl PrecioNoPositivo
      else if dec_exponent v < - 2 then Inl PrecioDecimales
      else Inr v)"

definition validate_stock :: "int \<Rightarrow> validation_error + int" where
  "validate_stock v = (if v < 0 then Inl StockNegativo else Inr v)"

text \<open>The fields of \<open>ProductoBase\<close>: \<open>Field\<close> constraints, then the validator.\<close>

definition ProductoBase_sku :: "(string \<Rightarrow> string) \<Rightarrow> string \<Rightarrow> validation_error + string" where
  "ProductoBase_sku str_upper v =
     (if length v < 3 then Inl StringTooShort
      else if 20 < length v then Inl StringTooLong
      else validate_sku str_upper v)"

definition ProductoBase_precio_unitario :: "decimal \<Rightarrow> validation_error + decimal" where
  "ProductoBase_precio_unitario v =
     (if \<not> 0 < dec_value v then Inl NotGreaterThan else validate_precio v)"

definition ProductoBase_stock :: "int \<Rightarrow> validation_error + int" where
  "ProductoBase_stock v = (if \<not> 0 \<le> v then Inl NotGreaterEqual else validate_stock v)"

text \<open>
  The fields of \<open>ProductoUpdate\<close> are optional: \<open>None\<close> passes through untouched, a
  value is checked as in \<open>ProductoBase\<close>.
\<close>

definition validate_sku_update ::
  "(string \<Rightarrow> string) \<Rightarrow> string option \<Rightarrow> validation_error + string option" where
  "validate_sku_update str_upper v =
     (case v of
        None \<Rightarrow> Inr None
      | Some s \<Rightarrow>
          (if s = [] then Inl SkuVacio
           else if length (split s (CHR ''-'')) \<noteq> 2 then Inl SkuFormato
           else Inr (Some (str_upper s))))"

definition ProductoUpdate_sku ::
  "(string \<Rightarrow> string) \<Rightarrow> string option \<Rightarrow> validation_error + string option" where
  "ProductoUpdate_sku str_upper v =
     (case v of
        None \<Rightarrow> validate_sku_update str_upper None
      | Some s \<Rightarrow>
          (if length s < 3 then Inl StringTooShort
           else if 20 < length s then Inl StringTooLong
           else validate_sku_update str_upper (Some s)))"

definition validate_precio_update :: "decimal option \<Rightarrow> validation_error + decimal option" where
  "validate_precio_update v =
     (case v of
        None \<Rightarrow> Inr None
      | Some d \<Rightarrow>
          (if dec_value d \<le> 0 then Inl PrecioNoPositivo
           else if dec_exponent d < - 2 then Inl PrecioDecimales
           else Inr (Some d)))"

definition ProductoUpdate_precio_unitario ::
  "decimal option \<Rightarrow> validation_error + decimal option" where
  "ProductoUpdate_precio_unitario v =
     (case v of
        None \<Rightarrow> validate_precio_update None
      | Some d \<Rightarrow>
          (if \<not> 0 < dec_value d then Inl NotGreaterThan else validate_precio_update (Some d)))"

definition validate_stock_update :: "int option \<Rightarrow> validation_error + int option" where
  "validate_stock_update v =
     (case v of
        None \<Rightarrow> Inr None
      | Some n \<Rightarrow> (if n < 0 then Inl StockNegativo else Inr (Some n)))"

definition ProductoUpdate_stock :: "int option \<Rightarrow> validation_error + int option" where
  "ProductoUpdate_stock v =
     (case v of
        None \<Rightarrow> validate_stock_update None
      | Some n \<Rightarrow>
          (if \<not> 0 \<le> n then Inl NotGreaterEqual else validate_stock_update (Some n)))"

section \<open>Data model (app/models/producto.py)\<close>

datatype CategoriaProducto = PAN | PASTELERIA | BEBIDAS | OTROS

text \<open>The text of each category; character 0xED is the accented i.\<close>

fun categoria_value :: "CategoriaProducto \<Rightarrow> string" where
  "categoria_value PAN = ''Pan''"
| "categoria_value PASTELERIA = ''Pasteler'' @ [CHR 0xED] @ ''a''"
| "categoria_value BEBIDAS = ''Bebidas''"
| "categoria_value OTROS = ''Otros''"

text \<open>
  A row of the table \<open>productos\<close>, on PostgreSQL (the store of \<open>app/database.py\<close>).
  Time stamps are points on an integer time line. The column \<open>precio_unitario\<close> is
  \<open>Numeric(10, 2)\<close>: the payloads come out of validation with at most two decimals,
  and the row holds the exact value of the price.
\<close>

type_synonym datetime = int

record Producto =
  prod_id :: int
  nombre :: string
  sku :: string
  categoria :: string
  precio_unitario :: rat
  stock :: int
  disponible :: bool
  fecha_registro :: datetime
  fecha_actualizacion :: datetime

text \<open>
  The store behind a \<open>Session\<close>: the rows of the table in the order a query without
  \<open>ORDER BY\<close> scans them, and the next value of the autoincrement sequence of \<open>id\<close>.
\<close>

record database =
  productos :: "Producto list"
  next_id :: int

text \<open>
  The payloads. A \<open>ProductoCreate\<close> carries every field. In a \<open>ProductoUpdate\<close> a
  field is unset (absent from the request), explicitly \<open>None\<close>, or a value:
  \<open>model_dump(exclude_unset=True)\<close> keeps the last two.
\<close>

record ProductoCreate =
  c_nombre :: string
  c_sku :: string
  c_categoria :: CategoriaProducto
  c_precio_unitario :: decimal
  c_stock :: int
  c_disponible :: bool

datatype 'a field = Unset | Null | Val 'a

record ProductoUpdate =
  u_nombre :: "string field"
  u_sku :: "string field"
  u_categoria :: "CategoriaProducto field"
  u_precio_unitario :: "decimal field"
  u_stock :: "int field"
  u_disponible :: "bool field"

section \<open>Repository (app/crud/producto.py)\<close>

text \<open>
  \<open>ValueError\<close> carries the SKU of its message. \<open>db.commit()\<close> raises
  \<open>DataError\<close> when the statement it flushes holds a value that a column cannot
  take, and \<open>IntegrityError\<close> when the statement breaks a constraint of the table
  (\<open>nullable=False\<close>, the unique constraint on \<open>sku\<close>); the transaction is then
  lost and the table is as before.
\<close>

datatype crud_error = ValueError string | DataError | IntegrityError

text \<open>
  The values of a row fit the columns: the texts are within \<open>String(150)\<close> and
  \<open>String(20)\<close>, the stock is a 32-bit integer, the price has at most eight digits
  before the point. (A text that is too long only by trailing blanks, which
  PostgreSQL cuts to the width, is taken as not fitting as well.)
\<close>

definition fits_columns :: "Producto \<Rightarrow> bool" where
  "fits_columns r =
     (length (nombre r) \<le> 150 \<and> length (sku r) \<le> 20 \<and> length (categoria r) \<le> 20 \<and>
      - 2147483648 \<le> stock r \<and> stock r \<le> 2147483647 \<and>
      abs (precio_unitario r) < 100000000)"

text \<open>\<open>query.filter(...).first()\<close>: the first row the condition holds of, or \<open>None\<close>.\<close>

definition get_by_id :: "database \<Rightarrow> int \<Rightarrow> Producto option" where
  "get_by_id db producto_id = find (\<lambda>r. prod_id r = producto_id) (productos db)"

definition get_by_sku :: "(string \<Rightarrow> string) \<Rightarrow> database \<Rightarrow> string \<Rightarrow> Producto option" where
  "get_by_sku str_upper db s = find (\<lambda>r. sku r = str_upper s) (productos db)"

text \<open>
  \<open>Producto(**producto.model_dump())\<close>, as the \<open>INSERT\<close> stores it: the sequence
  gives the id, \<open>server_default=func.now()\<close> gives both time stamps. \<open>create\<close>
  looks for the SKU first and raises before anything is added; the commit refuses a
  row that does not fit the columns.
\<close>

definition new_row :: "database \<Rightarrow> datetime \<Rightarrow> ProductoCreate \<Rightarrow> Producto" where
  "new_row db now p =
     \<lparr>prod_id = next_id db,
      nombre = c_nombre p,
      sku = c_sku p,
      categoria = categoria_value (c_categoria p),
      precio_unitario = dec_value (c_precio_unitario p),
      stock = c_stock p,
      disponible = c_disponible p,
      fecha_registro = now,
      fecha_actualizacion = now\<rparr>"

definition create ::
  "database \<Rightarrow> datetime \<Rightarrow> ProductoCreate \<Rightarrow> (crud_error + Producto) \<times> database" where
  "create db now producto =
     (case find (\<lambda>r. sku r = c_sku producto) (productos db) of
        Some existing_product \<Rightarrow> (Inl (ValueError (c_sku producto)), db)
      | None \<Rightarrow>
          (let db_producto = new_row db now producto
           in if \<not> fits_columns db_producto then (Inl DataError, db)
              else (Inr db_producto,
                    db\<lparr>productos := productos db @ [db_producto],
                       next_id := next_id db + 1\<rparr>)))"

text \<open>The two optional filters of \<open>get_all\<close> and \<open>count_all\<close>, applied in turn.\<close>

definition filter_categoria :: "string option \<Rightarrow> Producto list \<Rightarrow> Producto list" where
  "filter_categoria cat query =
     (case cat of
        None \<Rightarrow> query
      | Some c \<Rightarrow> (if c \<noteq> [] then filter (\<lambda>r. categoria r = c) query else query))"

definition filter_disponible :: "bool option \<Rightarrow> Producto list \<Rightarrow> Producto list" where
  "filter_disponible disp query =
     (case disp of
        None \<Rightarrow> query
      | Some b \<Rightarrow> filter (\<lambda>r. disponible r = b) query)"

text \<open>
  \<open>skip\<close> and \<open>limit\<close> are natural numbers: the routes pass \<open>skip \<ge> 0\<close> and
  \<open>1 \<le> limit \<le> 1000\<close> only.
\<close>

definition get_all ::
  "database \<Rightarrow> nat \<Rightarrow> nat \<Rightarrow> string option \<Rightarrow> bool option \<Rightarrow> Producto list" where
  "get_all db skip limit cat disp =
     take limit (drop skip (filter_disponible disp (filter_categoria cat (productos db))))"

definition count_all :: "database \<Rightarrow> string option \<Rightarrow> bool option \<Rightarrow> nat" where
  "count_all db cat disp =
     length (filter_disponible disp (filter_categoria cat (productos db)))"

text \<open>
  The loop \<open>for field, value in update_data.items(): setattr(db_producto, field, value)\<close>,
  field by field. A row never holds \<open>NULL\<close>: an update that would write one fails at
  the commit (see \<open>update\<close>), so \<open>assign\<close> is only read for unset fields and values.
\<close>

fun assign :: "'a field \<Rightarrow> 'a \<Rightarrow> 'a" where
  "assign (Val v) old = v"
| "assign Unset old = old"
| "assign Null old = old"

definition setattr_all :: "Producto \<Rightarrow> ProductoUpdate \<Rightarrow> Producto" where
  "setattr_all r u =
     r\<lparr>nombre := assign (u_nombre u) (nombre r),
       sku := assign (u_sku u) (sku r),
       categoria := assign (map_field categoria_value (u_categoria u)) (categoria r),
       precio_unitario := assign (map_field dec_value (u_precio_unitario u)) (precio_unitario r),
       stock := assign (u_stock u) (stock r),
       disponible := assign (u_disponible u) (disponible r)\<rparr>"

definition has_null :: "ProductoUpdate \<Rightarrow> bool" where
  "has_null u =
     (u_nombre u = Null \<or> u_sku u = Null \<or> u_categoria u = Null \<or>
      u_precio_unitario u = Null \<or> u_stock u = Null \<or> u_disponible u = Null)"

text \<open>\<open>producto_update.sku and ...\<close>: the attribute is a non-empty text.\<close>

fun sku_truthy :: "string field \<Rightarrow> string option" where
  "sku_truthy (Val s) = (if s = [] then None else Some s)"
| "sku_truthy Unset = None"
| "sku_truthy Null = None"

text \<open>
  \<open>db.commit()\<close> after the assignments. The session flushes an \<open>UPDATE\<close> for the
  object only when an attribute has a value different from the one loaded; without
  one, nothing is sent and the row stays as it is. An \<open>UPDATE\<close> that is sent sets the
  changed columns and, through \<open>onupdate=func.now()\<close>, \<open>fecha_actualizacion\<close>, on the
  rows with the object's primary key; it fails on a value that does not fit its
  column, on a \<open>NULL\<close> and on a new SKU that another row has. The updated row is kept
  at its place in the list: where the store puts it in its scan order is the
  store's business, and nothing below depends on the order of the rows after an
  update.
\<close>

definition commit_update ::
  "database \<Rightarrow> datetime \<Rightarrow> Producto \<Rightarrow> ProductoUpdate \<Rightarrow> (crud_error + Producto) \<times> database" where
  "commit_update db now db_producto u =
     (let changed = setattr_all db_producto u
      in if \<not> has_null u \<and> changed = db_producto then (Inr db_producto, db)
         else if \<not> fits_columns changed then (Inl DataError, db)
         else if has_null u then (Inl IntegrityError, db)
         else if sku changed \<noteq> sku db_producto \<and>
                 (\<exists>r \<in> set (productos db).
                    sku r = sku changed \<and> prod_id r \<noteq> prod_id db_producto)
           then (Inl IntegrityError, db)
         else
           (let stored = changed\<lparr>fecha_actualizacion := now\<rparr>
            in (Inr stored,
                db\<lparr>productos :=
                     map (\<lambda>r. if prod_id r = prod_id db_producto then stored else r)
                       (productos db)\<rparr>)))"

definition update ::
  "database \<Rightarrow> datetime \<Rightarrow> int \<Rightarrow> ProductoUpdate \<Rightarrow> (crud_error + Producto option) \<times> database" where
  "update db now producto_id producto_update =
     (case find (\<lambda>r. prod_id r = producto_id) (productos db) of
        None \<Rightarrow> (Inr None, db)
      | Some db_producto \<Rightarrow>
          (case sku_truthy (u_sku producto_update) of
             Some s \<Rightarrow>
               (if s \<noteq> sku db_producto \<and>
                   find (\<lambda>r. sku r = s \<and> prod_id r \<noteq> producto_id) (productos db) \<noteq> None
                then (Inl (ValueError s), db)
                else (case commit_update db now db_producto producto_update of
                        (Inl e, db') \<Rightarrow> (Inl e, db')
                      | (Inr r, db') \<Rightarrow> (Inr (Some r), db')))
           | None \<Rightarrow>
               (case commit_update db now db_producto producto_update of
                  (Inl e, db') \<Rightarrow> (Inl e, db')
                | (Inr r, db') \<Rightarrow> (Inr (Some r), db'))))"

text \<open>\<open>db.delete(db_producto)\<close> deletes by primary key.\<close>

definition delete :: "database \<Rightarrow> int \<Rightarrow> bool \<times> database" where
  "delete db producto_id =
     (case find (\<lambda>r. prod_id r = producto_id) (productos db) of
        None \<Rightarrow> (False, db)
      | Some db_producto \<Rightarrow>
          (True, db\<lparr>productos := filter (\<lambda>r. prod_id r \<noteq> prod_id db_producto) (productos db)\<rparr>))"

text \<open>
  \<open>s LIKE p\<close>: in the pattern \<open>%\<close> stands for any text and \<open>_\<close> for any one character;
  every other character stands for itself. \<open>ilike\<close> compares without regard to the
  case of the letters \<open>a..z\<close>. The escape character of PostgreSQL (the backslash)
  and the folding of capital letters outside \<open>A..Z\<close> are not modelled: what is
  proved of \<open>search_by_nombre\<close> is evaluated on names and patterns that hold
  neither.
\<close>

fun like :: "string \<Rightarrow> string \<Rightarrow> bool" where
  "like [] [] = True"
| "like (c # s) [] = False"
| "like [] (p # ps) = (p = CHR ''%'' \<and> like [] ps)"
| "like (c # s) (p # ps) =
     (if p = CHR ''%'' then like (c # s) ps \<or> like s (p # ps)
      else (p = CHR ''_'' \<or> p = c) \<and> like s ps)"

definition ilike :: "string \<Rightarrow> string \<Rightarrow> bool" where
  "ilike s p = like (lower s) (lower p)"

definition search_by_nombre :: "database \<Rightarrow> string \<Rightarrow> nat \<Rightarrow> nat \<Rightarrow> Producto list" where
  "search_by_nombre db term skip limit =
     take limit (drop skip
       (filter (\<lambda>r. ilike (nombre r) (''%'' @ term @ ''%'')) (productos db)))"

section \<open>Filters and sample data\<close>

text \<open>
  The condition that \<open>get_all\<close> and \<open>count_all\<close> put on a row: the category filter
  restricts only when it is a non-empty text, the availability filter whenever it is
  given.
\<close>

definition matches_applied :: "string option \<Rightarrow> bool option \<Rightarrow> Producto \<Rightarrow> bool" where
  "matches_applied cat disp r =
     ((case cat of None \<Rightarrow> True | Some c \<Rightarrow> c = [] \<or> categoria r = c) \<and>
      (case disp of None \<Rightarrow> True | Some b \<Rightarrow> disponible r = b))"

text \<open>
  The specification's reading, for comparison: a row matches all supplied filters
  when it has the category that was passed, whatever text that is, and the
  availability that was passed.
\<close>

definition matches_supplied :: "string option \<Rightarrow> bool option \<Rightarrow> Producto \<Rightarrow> bool" where
  "matches_supplied cat disp r =
     ((case cat of None \<Rightarrow> True | Some c \<Rightarrow> categoria r = c) \<and>
      (case disp of None \<Rightarrow> True | Some b \<Rightarrow> disponible r = b))"

text \<open>
  The products of \<open>tests/conftest.py\<close>, created one after the other in an empty
  table at times 10 and 11.
\<close>

definition empty_db :: database where
  "empty_db = \<lparr>productos = [], next_id = 1\<rparr>"

definition sample_product_data :: ProductoCreate where
  "sample_product_data =
     \<lparr>c_nombre = ''Pan Franc'' @ [CHR 0xE9] @ ''s'',
      c_sku = ''PAN-0001'',
      c_categoria = PAN,
      c_precio_unitario = Decimal False 125 (- 2),
      c_stock = 120,
      c_disponible = True\<rparr>"

definition sample_product_2_data :: ProductoCreate where
  "sample_product_2_data =
     \<lparr>c_nombre = ''Croissant'',
      c_sku = ''PAS-0101'',
      c_categoria = PASTELERIA,
      c_precio_unitario = Decimal False 275 (- 2),
      c_stock = 60,
      c_disponible = True\<rparr>"

definition sample_db :: database where
  "sample_db =
     snd (create (snd (create empty_db 10 sample_product_data)) 11 sample_product_2_data)"

definition sample_row_1 :: Producto where
  "sample_row_1 =
     \<lparr>prod_id = 1, nombre = ''Pan Franc'' @ [CHR 0xE9] @ ''s'', sku = ''PAN-0001'',
      categoria = ''Pan'', precio_unitario = 5 / 4, stock = 120, disponible = True,
      fecha_registro = 10, fecha_actualizacion = 10\<rparr>"

definition sample_row_2 :: Producto where
  "sample_row_2 =
     \<lparr>prod_id = 2, nombre = ''Croissant'', sku = ''PAS-0101'',
      categoria = ''Pasteler'' @ [CHR 0xED] @ ''a'', precio_unitario = 11 / 4,
      stock = 60, disponible = True, fecha_registro = 11, fecha_actualizacion = 11\<rparr>"

text \<open>
  Update payloads: the empty one, and the one of the test that updates the stock only,
  once with the stock the row already has and once with another.
\<close>

definition no_fields :: ProductoUpdate where
  "no_fields =
     \<lparr>u_nombre = Unset, u_sku = Unset, u_categoria = Unset, u_precio_unitario = Unset,
      u_stock = Unset, u_disponible = Unset\<rparr>"

definition stock_only :: "int \<Rightarrow> ProductoUpdate" where
  "stock_only n = no_fields\<lparr>u_stock := Val n\<rparr>"

section \<open>Properties of the validation layer\<close>

lemma split_not_Nil: "split v c \<noteq> []"
  by (induction v) (auto split: list.splits)

lemma length_split: "length (split v c) = Suc (count_list v c)"
  by (induction v) (auto split: list.splits simp: split_not_Nil)

text \<open>
  What the validators accept, for every \<open>str_upper\<close>: a SKU of 3 to 20 characters
  that splitting on the hyphen cuts into exactly two pieces, that is, one that holds
  exactly one hyphen. The pieces are not looked at.
\<close>

lemma sku_accepted_iff:
  "(ProductoBase_sku str_upper v = Inr u \<longleftrightarrow>
      3 \<le> length v \<and> length v \<le> 20 \<and> length (split v (CHR ''-'')) = 2 \<and>
      u = str_upper v) \<and>
   (ProductoUpdate_sku str_upper (Some v) = Inr w \<longleftrightarrow>
      3 \<le> length v \<and> length v \<le> 20 \<and> length (split v (CHR ''-'')) = 2 \<and>
      w = Some (str_upper v)) \<and>
   (length (split v (CHR ''-'')) = 2 \<longleftrightarrow> count_list v (CHR ''-'') = 1)"
  by (auto simp: ProductoBase_sku_def ProductoUpdate_sku_def validate_sku_def
      validate_sku_update_def length_split)

text \<open>
  Claim C1 asks for two non-empty pieces and names \<open>-AB\<close> and \<open>AB-\<close> as rejected,
  and the validator's own message asks for the format \<open>XXX-NNNN\<close>. The code accepts
  both, on create and on update, with an empty piece, and returns them as they are.
\<close>

theorem sku_empty_segment_accepted:
  "ProductoBase_sku upper ''-AB'' = Inr ''-AB'' \<and> split ''-AB'' (CHR ''-'') = ['''', ''AB''] \<and>
   ProductoBase_sku upper ''AB-'' = Inr ''AB-'' \<and> split ''AB-'' (CHR ''-'') = [''AB'', ''''] \<and>
   ProductoUpdate_sku upper (Some ''-AB'') = Inr (Some ''-AB'') \<and>
   ProductoUpdate_sku upper (Some ''AB-'') = Inr (Some ''AB-'')"
  by code_simp

lemma pow10_Ints: "- 2 \<le> e \<Longrightarrow> pow10 e * 100 \<in> \<int>"
proof -
  assume e: "- 2 \<le> e"
  consider "0 \<le> e" | "e = - 1" | "e = - 2" using e by linarith
  then show ?thesis
  proof cases
    case 1
    then show ?thesis by (simp add: pow10_def)
  next
    case 2
    then show ?thesis by (simp add: pow10_def)
  next
    case 3
    then show ?thesis by (simp add: pow10_def)
  qed
qed

lemma dec_value_Ints: "- 2 \<le> dec_exponent d \<Longrightarrow> dec_value d * 100 \<in> \<int>"
proof -
  assume "- 2 \<le> dec_exponent d"
  then have p: "pow10 (dec_exponent d) * 100 \<in> \<int>" by (rule pow10_Ints)
  have "dec_value d * 100 =
      (if dec_sign d then - 1 else 1) * of_nat (dec_coefficient d) * (pow10 (dec_exponent d) * 100)"
    by (simp add: dec_value_def)
  also have "\<dots> \<in> \<int>" using p by (auto intro!: Ints_mult)
  finally show ?thesis .
qed

lemma not_cents_1255: "dec_value (Decimal False 1255 (- 3)) * 100 \<notin> \<int>"
proof
  assume "dec_value (Decimal False 1255 (- 3)) * 100 \<in> \<int>"
  then obtain k :: int where k: "dec_value (Decimal False 1255 (- 3)) * 100 = of_int k"
    by (auto elim: Ints_cases)
  have "dec_value (Decimal False 1255 (- 3)) * 100 = 251 / 2"
    by (simp add: Decimal_def dec_value_def pow10_def)
  with k have "(of_int k :: rat) * 2 = 251" by simp
  then have "(of_int (k * 2) :: rat) = of_int 251" by simp
  then have "k * 2 = 251" by (simp only: of_int_eq_iff)
  then show False by presburger
qed

text \<open>
  Claim C4. The price is compared and its digits are counted on the exact decimal:
  a price whose value is 0 or less is rejected, \<open>0.01\<close> is accepted, a price whose
  value has more than two fractional digits (its hundredfold is not a whole number)
  is rejected, \<open>1.255\<close> is rejected and \<open>1.25\<close> is accepted; a stock of \<open>-1\<close> is
  rejected and a stock of \<open>0\<close> is accepted. The same holds for a price or a stock
  supplied in an update payload.
\<close>

theorem precio_stock_validation:
  "(dec_value d \<le> 0 \<longrightarrow> isl (ProductoBase_precio_unitario d)) \<and>
   (dec_value d \<le> 0 \<longrightarrow> isl (ProductoUpdate_precio_unitario (Some d))) \<and>
   ProductoBase_precio_unitario (Decimal False 0 0) = Inl NotGreaterThan \<and>
   ProductoBase_precio_unitario (Decimal False 1 (- 2)) = Inr (Decimal False 1 (- 2)) \<and>
   (dec_value d * 100 \<notin> \<int> \<longrightarrow> isl (ProductoBase_precio_unitario d)) \<and>
   (dec_value d * 100 \<notin> \<int> \<longrightarrow> isl (ProductoUpdate_precio_unitario (Some d))) \<and>
   ProductoBase_precio_unitario (Decimal False 1255 (- 3)) = Inl PrecioDecimales \<and>
   ProductoBase_precio_unitario (Decimal False 125 (- 2)) = Inr (Decimal False 125 (- 2)) \<and>
   ProductoBase_stock (- 1) = Inl NotGreaterEqual \<and>
   ProductoBase_stock 0 = Inr 0 \<and>
   ProductoUpdate_stock (Some (- 1)) = Inl NotGreaterEqual \<and>
   ProductoUpdate_stock (Some 0) = Inr (Some 0)"
proof -
  have neg: "dec_value d \<le> 0 \<longrightarrow> isl (ProductoBase_precio_unitario d)"
    by (simp add: ProductoBase_precio_unitario_def)
  have negu: "dec_value d \<le> 0 \<longrightarrow> isl (ProductoUpdate_precio_unitario (Some d))"
    by (simp add: ProductoUpdate_precio_unitario_def)
  have frac: "dec_value d * 100 \<notin> \<int> \<longrightarrow> isl (ProductoBase_precio_unitario d)"
    using dec_value_Ints [of d]
    by (auto simp: ProductoBase_precio_unitario_def validate_precio_def)
  have fracu: "dec_value d * 100 \<notin> \<int> \<longrightarrow> isl (ProductoUpdate_precio_unitario (Some d))"
    using dec_value_Ints [of d]
    by (auto simp: ProductoUpdate_precio_unitario_def validate_precio_update_def)
  have zero: "ProductoBase_precio_unitario (Decimal False 0 0) = Inl NotGreaterThan"
    by (simp add: ProductoBase_precio_unitario_def Decimal_def dec_value_def)
  have cent: "ProductoBase_precio_unitario (Decimal False 1 (- 2)) = Inr (Decimal False 1 (- 2))"
    by (simp add: ProductoBase_precio_unitario_def validate_precio_def Decimal_def
        dec_value_def pow10_def)
  have three: "ProductoBase_precio_unitario (Decimal False 1255 (- 3)) = Inl PrecioDecimales"
    by (simp add: ProductoBase_precio_unitario_def validate_precio_def Decimal_def
        dec_value_def pow10_def)
  have two: "ProductoBase_precio_unitario (Decimal False 125 (- 2)) = Inr (Decimal False 125 (- 2))"
    by (simp add: ProductoBase_precio_unitario_def validate_precio_def Decimal_def
        dec_value_def pow10_def)
  have st: "ProductoBase_stock (- 1) = Inl NotGreaterEqual" "ProductoBase_stock 0 = Inr 0"
    "ProductoUpdate_stock (Some (- 1)) = Inl NotGreaterEqual"
    "ProductoUpdate_stock (Some 0) = Inr (Some 0)"
    by (simp_all add: ProductoBase_stock_def validate_stock_def ProductoUpdate_stock_def
        validate_stock_update_def)
  show ?thesis using neg negu frac fracu zero cent three two st by blast
qed

theorem precio_stock_validation_witness:
  "dec_value (Decimal True 5 0) \<le> 0 \<and>
   isl (ProductoBase_precio_unitario (Decimal True 5 0)) \<and>
   isl (ProductoUpdate_precio_unitario (Some (Decimal True 5 0))) \<and>
   dec_value (Decimal False 1255 (- 3)) * 100 \<notin> \<int> \<and>
   isl (ProductoBase_precio_unitario (Decimal False 1255 (- 3))) \<and>
   isl (ProductoUpdate_precio_unitario (Some (Decimal False 1255 (- 3))))"
proof -
  have a: "dec_value (Decimal True 5 0) \<le> 0"
    by (simp add: Decimal_def dec_value_def pow10_def)
  show ?thesis
    using a not_cents_1255 precio_stock_validation [of "Decimal True 5 0"]
      precio_stock_validation [of "Decimal False 1255 (- 3)"]
    by blast
qed

section \<open>Properties of the repository: listing, counting, deleting\<close>

lemma sample_db_rows:
  "sample_db = \<lparr>productos = [sample_row_1, sample_row_2], next_id = 3\<rparr>"
  by (simp add: sample_db_def empty_db_def create_def new_row_def sample_product_data_def
      sample_product_2_data_def sample_row_1_def sample_row_2_def Decimal_def dec_value_def fits_columns_def
      pow10_def Let_def)

lemma filters_eq:
  "filter_disponible disp (filter_categoria cat xs) = filter (matches_applied cat disp) xs"
  by (auto simp: filter_disponible_def filter_categoria_def matches_applied_def
      split: option.splits intro: filter_cong)

text \<open>
  Claim C10. The empty text as category filter is no filter: \<open>get_all\<close> and
  \<open>count_all\<close> give with it what they give without a category.
\<close>

theorem empty_categoria_is_no_filter:
  "get_all db skip limit (Some []) disp = get_all db skip limit None disp \<and>
   count_all db (Some []) disp = count_all db None disp"
  by (simp add: get_all_def count_all_def filter_categoria_def)

theorem empty_categoria_is_no_filter_witness:
  "get_all sample_db 0 10 (Some '''') None = [sample_row_1, sample_row_2] \<and>
   count_all sample_db (Some '''') None = 2"
proof -
  have a: "get_all sample_db 0 10 None None = [sample_row_1, sample_row_2]"
    by (simp add: sample_db_rows get_all_def filter_categoria_def filter_disponible_def)
  have b: "count_all sample_db None None = 2"
    by (simp add: sample_db_rows count_all_def filter_categoria_def filter_disponible_def)
  note t = empty_categoria_is_no_filter [of sample_db _ _ None]
  show ?thesis
    using a b t [of 0 10] by simp
qed

text \<open>
  Claim C7. \<open>count_all\<close> is the number of rows that pass the filters of \<open>get_all\<close>:
  the length of the list \<open>get_all\<close> returns with the same filters when nothing is
  skipped and the limit is at least the size of the table.
\<close>

theorem count_all_is_length_of_list:
  "count_all db cat disp = length (filter (matches_applied cat disp) (productos db)) \<and>
   (length (productos db) \<le> limit \<longrightarrow>
      count_all db cat disp = length (get_all db 0 limit cat disp))"
proof -
  have "length (filter (matches_applied cat disp) (productos db)) \<le> length (productos db)"
    by (rule length_filter_le)
  then have "length (productos db) \<le> limit \<longrightarrow>
      min (length (filter (matches_applied cat disp) (productos db))) limit =
      length (filter (matches_applied cat disp) (productos db))"
    by linarith
  then show ?thesis
    by (simp add: count_all_def get_all_def filters_eq)
qed

theorem count_all_is_length_of_list_witness:
  "length (productos sample_db) \<le> 100 \<and>
   count_all sample_db (Some ''Pan'') None = length (get_all sample_db 0 100 (Some ''Pan'') None) \<and>
   count_all sample_db (Some ''Pan'') None = 1"
proof -
  have a: "length (productos sample_db) \<le> 100"
    by (simp add: sample_db_rows)
  have b: "count_all sample_db (Some ''Pan'') None = 1"
    by (simp add: sample_db_rows sample_row_1_def sample_row_2_def count_all_def
        filter_categoria_def filter_disponible_def)
  show ?thesis
    using a b count_all_is_length_of_list [of sample_db "Some ''Pan''" None 100] by simp
qed

text \<open>
  Claim C8, as the code has it. \<open>get_all\<close> returns the rows that pass the filters,
  in the order of the table, without the first \<open>skip\<close> of them and at most \<open>limit\<close>
  of them. Every returned row has the availability that was passed and, when the
  category passed is a non-empty text, that category; a filter that is not passed,
  and the empty text as category, restrict nothing.
\<close>

theorem get_all_filtered_page:
  "get_all db skip limit cat disp =
     take limit (drop skip (filter (matches_applied cat disp) (productos db))) \<and>
   length (get_all db skip limit cat disp) \<le> limit \<and>
   (\<forall>r \<in> set (get_all db skip limit cat disp). matches_applied cat disp r) \<and>
   (cat \<noteq> Some [] \<longrightarrow>
      (\<forall>r \<in> set (get_all db skip limit cat disp). matches_supplied cat disp r)) \<and>
   get_all db skip limit None None = take limit (drop skip (productos db))"
proof -
  have eq: "get_all db skip limit cat disp =
      take limit (drop skip (filter (matches_applied cat disp) (productos db)))"
    by (simp add: get_all_def filters_eq)
  have sub: "set (get_all db skip limit cat disp) \<subseteq>
      set (filter (matches_applied cat disp) (productos db))"
    unfolding eq by (meson set_take_subset set_drop_subset subset_trans)
  have m: "\<forall>r \<in> set (get_all db skip limit cat disp). matches_applied cat disp r"
    using sub by auto
  have s: "cat \<noteq> Some [] \<longrightarrow>
      (\<forall>r \<in> set (get_all db skip limit cat disp). matches_supplied cat disp r)"
  proof (intro impI ballI)
    fix r
    assume c: "cat \<noteq> Some []" and r: "r \<in> set (get_all db skip limit cat disp)"
    from m r have "matches_applied cat disp r" by blast
    with c show "matches_supplied cat disp r"
      by (cases cat; cases disp) (auto simp: matches_applied_def matches_supplied_def)
  qed
  have n: "get_all db skip limit None None = take limit (drop skip (productos db))"
    by (simp add: get_all_def filter_categoria_def filter_disponible_def)
  have l: "length (get_all db skip limit cat disp) \<le> limit"
    by (simp add: eq)
  show ?thesis
    by (intro conjI) (rule eq l m s n)+
qed

theorem get_all_filtered_page_witness:
  "Some ''Pan'' \<noteq> Some [] \<and>
   get_all sample_db 0 1 (Some ''Pan'') (Some True) = [sample_row_1] \<and>
   sample_row_1 \<in> set (get_all sample_db 0 1 (Some ''Pan'') (Some True)) \<and>
   matches_supplied (Some ''Pan'') (Some True) sample_row_1"
proof -
  have a: "get_all sample_db 0 1 (Some ''Pan'') (Some True) = [sample_row_1]"
    by (simp add: sample_db_rows sample_row_1_def sample_row_2_def get_all_def
        filter_categoria_def filter_disponible_def)
  have b: "Some ''Pan'' \<noteq> Some []" by simp
  have c: "sample_row_1 \<in> set (get_all sample_db 0 1 (Some ''Pan'') (Some True))"
    unfolding a by simp
  have d: "Some ''Pan'' \<noteq> Some [] \<longrightarrow>
      (\<forall>r \<in> set (get_all sample_db 0 1 (Some ''Pan'') (Some True)).
         matches_supplied (Some ''Pan'') (Some True) r)"
    by (rule get_all_filtered_page [of sample_db 0 1 "Some ''Pan''" "Some True",
          THEN conjunct2, THEN conjunct2, THEN conjunct2, THEN conjunct1])
  have e: "matches_supplied (Some ''Pan'') (Some True) sample_row_1"
    using b c d by blast
  show ?thesis
    by (intro conjI) (rule a b c e)+
qed

text \<open>
  Claim C8 as stated fails when the category passed is the empty text: the list holds
  a row of category \<open>Pan\<close>, which does not match the category that was supplied.
\<close>

theorem get_all_empty_categoria_counterexample:
  "get_all sample_db 0 10 (Some '''') None = [sample_row_1, sample_row_2] \<and>
   categoria sample_row_1 = ''Pan'' \<and>
   \<not> matches_supplied (Some '''') None sample_row_1"
  by (simp add: sample_db_rows sample_row_1_def get_all_def filter_categoria_def
      filter_disponible_def matches_supplied_def)

text \<open>
  Claim C6. \<open>delete\<close> returns true exactly when a row with the id exists; after it
  \<open>get_by_id\<close> finds no row with the id, the rows with other ids are all still there,
  and a delete that returns false leaves the table as it was.
\<close>

theorem delete_then_get:
  "fst (delete db pid) = (\<exists>r \<in> set (productos db). prod_id r = pid) \<and>
   fst (delete db pid) = (get_by_id db pid \<noteq> None) \<and>
   get_by_id (snd (delete db pid)) pid = None \<and>
   set (productos (snd (delete db pid))) = {r \<in> set (productos db). prod_id r \<noteq> pid} \<and>
   (\<not> fst (delete db pid) \<longrightarrow> snd (delete db pid) = db)"
proof (cases "find (\<lambda>r. prod_id r = pid) (productos db)")
  case None
  then have d: "delete db pid = (False, db)"
    by (simp add: delete_def)
  have n: "\<forall>r \<in> set (productos db). prod_id r \<noteq> pid"
    using None by (auto simp: find_None_iff)
  show ?thesis
    using n None by (auto simp: d get_by_id_def)
next
  case (Some a)
  then have a: "prod_id a = pid" "a \<in> set (productos db)"
    by (auto simp: find_Some_iff)
  have d: "delete db pid =
      (True, db\<lparr>productos := filter (\<lambda>r. prod_id r \<noteq> pid) (productos db)\<rparr>)"
    using Some a by (simp add: delete_def)
  have g: "get_by_id db pid \<noteq> None"
    using Some by (simp add: get_by_id_def)
  have f: "find (\<lambda>r. prod_id r = pid) (filter (\<lambda>r. prod_id r \<noteq> pid) (productos db)) = None"
    by (simp add: find_None_iff)
  show ?thesis
    using a g f by (auto simp: d get_by_id_def)
qed

theorem delete_then_get_witness:
  "fst (delete sample_db 1) \<and> get_by_id sample_db 1 \<noteq> None \<and>
   get_by_id (snd (delete sample_db 1)) 1 = None \<and>
   \<not> fst (delete sample_db 7) \<and> snd (delete sample_db 7) = sample_db"
proof -
  have a: "get_by_id sample_db 1 \<noteq> None"
    by (simp add: sample_db_rows sample_row_1_def sample_row_2_def get_by_id_def)
  have b: "get_by_id sample_db 7 = None"
    by (simp add: sample_db_rows sample_row_1_def sample_row_2_def get_by_id_def)
  note t1 = delete_then_get [of sample_db 1]
  note t7 = delete_then_get [of sample_db 7]
  have c: "fst (delete sample_db 1)"
    using a t1 [THEN conjunct2, THEN conjunct1] by simp
  have d: "\<not> fst (delete sample_db 7)"
    using b t7 [THEN conjunct2, THEN conjunct1] by simp
  have e: "get_by_id (snd (delete sample_db 1)) 1 = None"
    by (rule t1 [THEN conjunct2, THEN conjunct2, THEN conjunct1])
  have f: "snd (delete sample_db 7) = sample_db"
    using d t7 [THEN conjunct2, THEN conjunct2, THEN conjunct2, THEN conjunct2] by simp
  show ?thesis
    using a c d e f by simp
qed

section \<open>Properties of the repository: creating\<close>


lemma create_sample:
  "create empty_db 10 sample_product_data =
     (Inr sample_row_1, \<lparr>productos = [sample_row_1], next_id = 2\<rparr>)"
  by (simp add: empty_db_def create_def new_row_def sample_product_data_def sample_row_1_def
      Decimal_def dec_value_def pow10_def Let_def fits_columns_def)



section \<open>Properties of the repository: updating\<close>

lemma update_Some:
  assumes "update db now pid u = (Inr (Some r'), db')"
  shows "\<exists>r. get_by_id db pid = Some r \<and> commit_update db now r u = (Inr r', db')"
  using assms
  by (auto simp: update_def get_by_id_def split: option.splits if_splits sum.splits prod.splits)

lemma commit_update_ok:
  assumes "commit_update db now r u = (Inr r', db')"
  shows "\<not> has_null u"
    and "setattr_all r u = r \<Longrightarrow> r' = r \<and> db' = db"
    and "setattr_all r u \<noteq> r \<Longrightarrow>
           r' = (setattr_all r u)\<lparr>fecha_actualizacion := now\<rparr> \<and>
           db' = db\<lparr>productos := map (\<lambda>x. if prod_id x = prod_id r then r' else x) (productos db)\<rparr>"
  using assms by (auto simp: commit_update_def Let_def split: if_splits)

lemma find_map_replace:
  assumes "find (\<lambda>x. f x = k) xs = Some r" and "f r' = k"
  shows "find (\<lambda>x. f x = k) (map (\<lambda>x. if f x = f r then r' else x) xs) = Some r'"
proof -
  have fr: "f r = k" using assms(1) by (auto simp: find_Some_iff)
  show ?thesis using assms unfolding fr
    by (induction xs) (auto split: if_splits)
qed

lemma update_fields:
  assumes "update db now pid u = (Inr (Some r'), db')" and "get_by_id db pid = Some r"
  shows "commit_update db now r u = (Inr r', db')"
    and "prod_id r = pid"
    and "\<not> has_null u"
    and "r' = setattr_all r u \<or> r' = (setattr_all r u)\<lparr>fecha_actualizacion := now\<rparr>"
proof -
  show c: "commit_update db now r u = (Inr r', db')"
    using update_Some [OF assms(1)] assms(2) by auto
  show "prod_id r = pid"
    using assms(2) by (auto simp: get_by_id_def find_Some_iff)
  show "\<not> has_null u"
    by (rule commit_update_ok(1) [OF c])
  show "r' = setattr_all r u \<or> r' = (setattr_all r u)\<lparr>fecha_actualizacion := now\<rparr>"
    using commit_update_ok(2,3) [OF c] by (cases "setattr_all r u = r") auto
qed

lemma assign_cases:
  "f \<noteq> Null \<Longrightarrow> x = assign (map_field g f) old \<Longrightarrow>
     (case f of Unset \<Rightarrow> x = old | Null \<Rightarrow> False | Val v \<Rightarrow> x = g v)"
  by (cases f) auto

lemma assign_cases_id:
  "f \<noteq> Null \<Longrightarrow> x = assign f old \<Longrightarrow>
     (case f of Unset \<Rightarrow> x = old | Null \<Rightarrow> False | Val v \<Rightarrow> x = v)"
  by (cases f) auto

lemma get_sample_1: "get_by_id sample_db 1 = Some sample_row_1"
  by (simp add: sample_db_rows sample_row_1_def get_by_id_def)

lemma update_sample_stock:
  "update sample_db 20 1 (stock_only 150) =
     (Inr (Some (sample_row_1\<lparr>stock := 150, fecha_actualizacion := 20\<rparr>)),
      \<lparr>productos = [sample_row_1\<lparr>stock := 150, fecha_actualizacion := 20\<rparr>, sample_row_2],
       next_id = 3\<rparr>)"
  by (simp add: update_def commit_update_def setattr_all_def has_null_def stock_only_def
      no_fields_def sample_db_rows sample_row_1_def sample_row_2_def Let_def fits_columns_def)

lemma update_sample_noop:
  "update sample_db 20 1 no_fields = (Inr (Some sample_row_1), sample_db)"
  "update sample_db 20 1 (stock_only 120) = (Inr (Some sample_row_1), sample_db)"
  by (simp_all add: update_def commit_update_def setattr_all_def has_null_def stock_only_def
      no_fields_def sample_db_rows sample_row_1_def sample_row_2_def Let_def)

text \<open>
  Claim C5. After a successful update of an existing row, a field that the payload
  does not supply has its former value and a supplied field has the supplied value (no
  field can have been supplied as \<open>None\<close>); \<open>id\<close> and \<open>fecha_registro\<close> are as
  before. The row returned is the one then stored under the id, and the rows with
  other ids are untouched.
\<close>

theorem update_changes_supplied_fields_only:
  assumes "update db now pid u = (Inr (Some r'), db')" and "get_by_id db pid = Some r"
  shows "prod_id r' = prod_id r \<and> fecha_registro r' = fecha_registro r \<and>
    (case u_nombre u of Unset \<Rightarrow> nombre r' = nombre r | Null \<Rightarrow> False
       | Val v \<Rightarrow> nombre r' = v) \<and>
    (case u_sku u of Unset \<Rightarrow> sku r' = sku r | Null \<Rightarrow> False
       | Val v \<Rightarrow> sku r' = v) \<and>
    (case u_categoria u of Unset \<Rightarrow> categoria r' = categoria r | Null \<Rightarrow> False
       | Val v \<Rightarrow> categoria r' = categoria_value v) \<and>
    (case u_precio_unitario u of Unset \<Rightarrow> precio_unitario r' = precio_unitario r
       | Null \<Rightarrow> False | Val v \<Rightarrow> precio_unitario r' = dec_value v) \<and>
    (case u_stock u of Unset \<Rightarrow> stock r' = stock r | Null \<Rightarrow> False
       | Val v \<Rightarrow> stock r' = v) \<and>
    (case u_disponible u of Unset \<Rightarrow> disponible r' = disponible r | Null \<Rightarrow> False
       | Val v \<Rightarrow> disponible r' = v) \<and>
    get_by_id db' pid = Some r' \<and>
    length (productos db') = length (productos db) \<and>
    (\<forall>x \<in> set (productos db). prod_id x \<noteq> pid \<longrightarrow> x \<in> set (productos db'))"
proof -
  note f = update_fields [OF assms]
  have nn: "u_nombre u \<noteq> Null" "u_sku u \<noteq> Null" "u_categoria u \<noteq> Null"
    "u_precio_unitario u \<noteq> Null" "u_stock u \<noteq> Null" "u_disponible u \<noteq> Null"
    using f(3) by (auto simp: has_null_def)
  have i: "prod_id r' = prod_id r" and t: "fecha_registro r' = fecha_registro r"
    using f(4) by (auto simp: setattr_all_def)
  have n: "nombre r' = assign (u_nombre u) (nombre r)"
    using f(4) by (auto simp: setattr_all_def)
  have s: "sku r' = assign (u_sku u) (sku r)"
    using f(4) by (auto simp: setattr_all_def)
  have c: "categoria r' = assign (map_field categoria_value (u_categoria u)) (categoria r)"
    using f(4) by (auto simp: setattr_all_def)
  have p: "precio_unitario r' =
      assign (map_field dec_value (u_precio_unitario u)) (precio_unitario r)"
    using f(4) by (auto simp: setattr_all_def)
  have k: "stock r' = assign (u_stock u) (stock r)"
    using f(4) by (auto simp: setattr_all_def)
  have d: "disponible r' = assign (u_disponible u) (disponible r)"
    using f(4) by (auto simp: setattr_all_def)
  have fnd: "find (\<lambda>x. prod_id x = pid) (productos db) = Some r"
    using assms(2) by (simp add: get_by_id_def)
  have ip: "prod_id r' = pid" using i f(2) by simp
  have rest: "get_by_id db' pid = Some r' \<and>
      length (productos db') = length (productos db) \<and>
      (\<forall>x \<in> set (productos db). prod_id x \<noteq> pid \<longrightarrow> x \<in> set (productos db'))"
  proof (cases "setattr_all r u = r")
    case True
    then have "r' = r \<and> db' = db" by (rule commit_update_ok(2) [OF f(1)])
    then show ?thesis using assms(2) by simp
  next
    case False
    then have db': "db' = db\<lparr>productos :=
        map (\<lambda>x. if prod_id x = prod_id r then r' else x) (productos db)\<rparr>"
      using commit_update_ok(3) [OF f(1)] by simp
    have g: "get_by_id db' pid = Some r'"
      using find_map_replace [of prod_id pid "productos db" r r', OF fnd ip]
      by (simp add: db' get_by_id_def)
    have o: "\<forall>x \<in> set (productos db). prod_id x \<noteq> pid \<longrightarrow> x \<in> set (productos db')"
      using f(2) by (auto simp: db')
    show ?thesis using g o by (simp add: db')
  qed
  show ?thesis
    by (intro conjI) (rule i t assign_cases_id [OF nn(1) n] assign_cases_id [OF nn(2) s]
        assign_cases [OF nn(3) c] assign_cases [OF nn(4) p] assign_cases_id [OF nn(5) k]
        assign_cases_id [OF nn(6) d] rest [THEN conjunct1]
        rest [THEN conjunct2, THEN conjunct1] rest [THEN conjunct2, THEN conjunct2])+
qed

theorem update_changes_supplied_fields_only_witness:
  "update sample_db 20 1 (stock_only 150) =
     (Inr (Some (sample_row_1\<lparr>stock := 150, fecha_actualizacion := 20\<rparr>)),
      \<lparr>productos = [sample_row_1\<lparr>stock := 150, fecha_actualizacion := 20\<rparr>, sample_row_2],
       next_id = 3\<rparr>) \<and>
   get_by_id sample_db 1 = Some sample_row_1 \<and>
   nombre (sample_row_1\<lparr>stock := 150, fecha_actualizacion := 20\<rparr>) = nombre sample_row_1 \<and>
   stock (sample_row_1\<lparr>stock := 150, fecha_actualizacion := 20\<rparr>) = 150"
proof -
  note t = update_changes_supplied_fields_only [OF update_sample_stock get_sample_1]
  have n: "u_nombre (stock_only 150) = Unset" and k: "u_stock (stock_only 150) = Val 150"
    by (simp_all add: stock_only_def no_fields_def)
  have a: "nombre (sample_row_1\<lparr>stock := 150, fecha_actualizacion := 20\<rparr>) = nombre sample_row_1"
    using t [THEN conjunct2, THEN conjunct2, THEN conjunct1] unfolding n by simp
  have b: "stock (sample_row_1\<lparr>stock := 150, fecha_actualizacion := 20\<rparr>) = 150"
    using t [THEN conjunct2, THEN conjunct2, THEN conjunct2, THEN conjunct2, THEN conjunct2,
        THEN conjunct2, THEN conjunct1] unfolding k by simp
  show ?thesis
    by (intro conjI) (rule update_sample_stock get_sample_1 a b)+
qed

text \<open>
  Claim C2, as the code has it. \<open>fecha_actualizacion\<close> is set by the \<open>UPDATE\<close>
  statement, so a successful update sets it to the current time exactly when it
  changes the value of at least one supplied field; then it advances strictly if the
  clock is past the former value. An update that supplies no field, or only values
  that the row already has, returns the row and leaves the table unchanged, time
  stamp included. \<open>fecha_registro \<le> fecha_actualizacion\<close> is kept by every
  successful update when the clock has not gone back.
\<close>

theorem update_refreshes_on_change:
  assumes "update db now pid u = (Inr (Some r'), db')" and "get_by_id db pid = Some r"
  shows "(setattr_all r u \<noteq> r \<longrightarrow> fecha_actualizacion r' = now) \<and>
    (setattr_all r u = r \<longrightarrow> r' = r \<and> db' = db) \<and>
    (fecha_registro r \<le> fecha_actualizacion r \<and> fecha_actualizacion r \<le> now \<longrightarrow>
       fecha_registro r' \<le> fecha_actualizacion r') \<and>
    (setattr_all r u \<noteq> r \<and> fecha_actualizacion r < now \<longrightarrow>
       fecha_actualizacion r < fecha_actualizacion r')"
proof -
  note f = update_fields [OF assms]
  have reg: "fecha_registro r' = fecha_registro r"
    using f(4) by (auto simp: setattr_all_def)
  show ?thesis
  proof (cases "setattr_all r u = r")
    case True
    then have "r' = r \<and> db' = db" by (rule commit_update_ok(2) [OF f(1)])
    then show ?thesis using True by simp
  next
    case False
    then have "r' = (setattr_all r u)\<lparr>fecha_actualizacion := now\<rparr>"
      using commit_update_ok(3) [OF f(1)] by simp
    then have "fecha_actualizacion r' = now" by simp
    then show ?thesis using False reg by simp
  qed
qed

theorem update_refreshes_on_change_witness:
  "update sample_db 20 1 (stock_only 150) =
     (Inr (Some (sample_row_1\<lparr>stock := 150, fecha_actualizacion := 20\<rparr>)),
      \<lparr>productos = [sample_row_1\<lparr>stock := 150, fecha_actualizacion := 20\<rparr>, sample_row_2],
       next_id = 3\<rparr>) \<and>
   get_by_id sample_db 1 = Some sample_row_1 \<and>
   setattr_all sample_row_1 (stock_only 150) \<noteq> sample_row_1 \<and>
   fecha_actualizacion sample_row_1 < 20 \<and>
   fecha_actualizacion (sample_row_1\<lparr>stock := 150, fecha_actualizacion := 20\<rparr>) = 20 \<and>
   fecha_actualizacion sample_row_1
     < fecha_actualizacion (sample_row_1\<lparr>stock := 150, fecha_actualizacion := 20\<rparr>)"
proof -
  note t = update_refreshes_on_change [OF update_sample_stock get_sample_1]
  have c: "setattr_all sample_row_1 (stock_only 150) \<noteq> sample_row_1"
  proof
    assume "setattr_all sample_row_1 (stock_only 150) = sample_row_1"
    then have "stock (setattr_all sample_row_1 (stock_only 150)) = stock sample_row_1"
      by simp
    then show False
      by (simp add: setattr_all_def stock_only_def no_fields_def sample_row_1_def)
  qed
  have o: "fecha_actualizacion sample_row_1 < 20"
    by (simp add: sample_row_1_def)
  have a: "fecha_actualizacion (sample_row_1\<lparr>stock := 150, fecha_actualizacion := 20\<rparr>) = 20"
    using c t [THEN conjunct1] by blast
  have b: "fecha_actualizacion sample_row_1
     < fecha_actualizacion (sample_row_1\<lparr>stock := 150, fecha_actualizacion := 20\<rparr>)"
    using c o t [THEN conjunct2, THEN conjunct2, THEN conjunct2] by blast
  show ?thesis
    by (intro conjI) (rule update_sample_stock get_sample_1 c o a b)+
qed

text \<open>
  An update of an existing row that supplies no \<open>None\<close> and changes no value always
  succeeds, returns the row and leaves the table as it is.
\<close>

lemma noop_update_succeeds:
  assumes "get_by_id db pid = Some r" and "\<not> has_null u" and "setattr_all r u = r"
  shows "update db now pid u = (Inr (Some r), db)"
proof -
  have f: "find (\<lambda>x. prod_id x = pid) (productos db) = Some r"
    using assms(1) by (simp add: get_by_id_def)
  have c: "commit_update db now r u = (Inr r, db)"
    using assms(2,3) by (simp add: commit_update_def)
  have "sku (setattr_all r u) = sku r"
    using assms(3) by simp
  then have s: "sku_truthy (u_sku u) = Some s \<Longrightarrow> s = sku r" for s
    by (cases "u_sku u") (auto simp: setattr_all_def split: if_splits)
  show ?thesis
  proof (cases "sku_truthy (u_sku u)")
    case None
    then show ?thesis by (simp add: update_def f c)
  next
    case (Some s)
    then show ?thesis using s [OF Some] by (simp add: update_def f c)
  qed
qed

text \<open>
  Claim C2 as stated fails on the empty payload and on a payload that repeats the
  stored stock: both updates succeed at time 20 and the row keeps
  \<open>fecha_actualizacion = 10\<close>.
\<close>

theorem update_noop_keeps_timestamp_counterexample:
  "update sample_db 20 1 no_fields = (Inr (Some sample_row_1), sample_db) \<and>
   update sample_db 20 1 (stock_only 120) = (Inr (Some sample_row_1), sample_db) \<and>
   get_by_id sample_db 1 = Some sample_row_1 \<and>
   fecha_actualizacion sample_row_1 = 10 \<and>
   fecha_actualizacion sample_row_1 \<noteq> 20"
  by (simp add: update_sample_noop get_sample_1) (simp add: sample_row_1_def)

section \<open>Properties of the repository: searching\<close>

lemma like_Nil [simp]: "like s [] = (s = [])"
  by (cases s) auto

lemma ilike_1: "ilike (nombre sample_row_1) (''%'' @ ''_'' @ ''%'')"
  by (simp add: sample_row_1_def ilike_def lower_def lower_char_def)

lemma ilike_2: "ilike (nombre sample_row_2) (''%'' @ ''_'' @ ''%'')"
  by (simp add: sample_row_2_def ilike_def lower_def lower_char_def)

text \<open>
  Claim C9 asks that, for every search term, the rows returned are those whose name
  contains the term as it is written. The term is put into the pattern as it is, so
  a \<open>%\<close> or \<open>_\<close> in it is a wildcard: the search for \<open>_\<close> returns both sample
  rows, and neither name contains an underscore.
\<close>

theorem search_by_nombre_underscore:
  "search_by_nombre sample_db ''_'' 0 10 = [sample_row_1, sample_row_2] \<and>
   CHR ''_'' \<notin> set (nombre sample_row_1) \<and> CHR ''_'' \<notin> set (nombre sample_row_2) \<and>
   \<not> (\<exists>a b. lower (nombre sample_row_1) = a @ lower ''_'' @ b)"
proof -
  have a: "search_by_nombre sample_db ''_'' 0 10 = [sample_row_1, sample_row_2]"
    using ilike_1 ilike_2 by (simp add: search_by_nombre_def sample_db_rows)
  have b: "CHR ''_'' \<notin> set (nombre sample_row_1)"
    by (simp add: sample_row_1_def)
  have c: "CHR ''_'' \<notin> set (nombre sample_row_2)"
    by (simp add: sample_row_2_def)
  have l: "CHR ''_'' \<notin> set (lower (nombre sample_row_1))"
    by code_simp
  have d: "\<not> (\<exists>a b. lower (nombre sample_row_1) = a @ lower ''_'' @ b)"
  proof
    assume "\<exists>a b. lower (nombre sample_row_1) = a @ lower ''_'' @ b"
    then obtain a b where "lower (nombre sample_row_1) = a @ lower ''_'' @ b" by blast
    then have "CHR ''_'' \<in> set (lower (nombre sample_row_1))"
      by (simp add: lower_def lower_char_def)
    with l show False by simp
  qed
  show ?thesis
    by (intro conjI) (rule a b c d)+
qed

end
